theory Spec2Isabelle
  imports Complex_Main "HOL-Library.Word"
begin

section \<open>JavaScript values used by the chat bridge\<close>

text \<open>
  A JavaScript string is a sequence of UTF-16 code units. The literals of the program are
  ASCII, so \<open>js\<close> embeds an Isabelle string literal code unit by code unit.
\<close>

type_synonym jsstring = "16 word list"

definition js :: "string \<Rightarrow> jsstring" where
  "js s = map (\<lambda>c. of_nat (of_char c)) s"

text \<open>
  A JavaScript number that \<open>JSON.parse\<close> can give: a finite IEEE 754 double, by its exact
  value, or an infinity (a literal too large for a double). The two zeros are one value
  here: the program cannot tell them apart, and both are falsy and print as \<open>0\<close>.
\<close>

datatype jsnumber = Finite rat | PosInfinity | NegInfinity

text \<open>
  The values that travel through the program are the values that \<open>JSON.parse\<close> gives
  (in \<open>express.json()\<close> and \<open>response.json()\<close>) and \<open>undefined\<close> (a missing body, a missing
  property, an unset environment variable). \<open>undefined\<close> is \<open>None\<close>. An object lists its
  own properties in property order, one for a key.
\<close>

datatype json =
    JNull
  | JBool bool
  | JNum jsnumber
  | JStr jsstring
  | JArr "json list"
  | JObj "(jsstring \<times> json) list"

type_synonym jsvalue = "json option"

text \<open>ToBoolean: \<open>undefined\<close>, \<open>null\<close>, \<open>false\<close>, zero and the empty string are falsy.\<close>

fun truthy :: "jsvalue \<Rightarrow> bool" where
  "truthy None = False"
| "truthy (Some JNull) = False"
| "truthy (Some (JBool b)) = b"
| "truthy (Some (JNum n)) = (n \<noteq> Finite 0)"
| "truthy (Some (JStr s)) = (s \<noteq> [])"
| "truthy (Some (JArr xs)) = True"
| "truthy (Some (JObj kvs)) = True"

datatype jstype = TUndefined | TObject | TBoolean | TNumber | TString

fun typeof :: "jsvalue \<Rightarrow> jstype" where
  "typeof None = TUndefined"
| "typeof (Some JNull) = TObject"
| "typeof (Some (JBool b)) = TBoolean"
| "typeof (Some (JNum n)) = TNumber"
| "typeof (Some (JStr s)) = TString"
| "typeof (Some (JArr xs)) = TObject"
| "typeof (Some (JObj kvs)) = TObject"

text \<open>
  Reading the property \<open>key\<close> of a value, for the keys the program reads (\<open>message\<close>,
  \<open>reply\<close>): \<open>undefined\<close> and \<open>null\<close> have no properties and the access throws a
  TypeError (the outer \<open>None\<close>); an object gives its member or \<open>undefined\<close>; strings,
  numbers, booleans and arrays have no property of these names and give \<open>undefined\<close>.
\<close>

fun member_of :: "json \<Rightarrow> jsstring \<Rightarrow> jsvalue" where
  "member_of (JObj kvs) key = map_of kvs key"
| "member_of v key = None"

fun get_property :: "jsvalue \<Rightarrow> jsstring \<Rightarrow> jsvalue option" where
  "get_property None key = None"
| "get_property (Some JNull) key = None"
| "get_property (Some v) key = Some (member_of v key)"

text \<open>The operator \<open>a || b\<close>: the first operand when it is truthy, else the second.\<close>

definition js_or :: "jsvalue \<Rightarrow> jsvalue \<Rightarrow> jsvalue" where
  "js_or a b = (if truthy a then a else b)"

text \<open>
  \<open>String.prototype.trim\<close> removes WhiteSpace and LineTerminator code points from both
  ends: TAB, LF, VT, FF, CR, SPACE, NBSP, the other space separators of Unicode, LS, PS
  and the byte order mark. All of them are single code units.
\<close>

definition isWhiteSpace :: "16 word \<Rightarrow> bool" where
  "isWhiteSpace c \<longleftrightarrow>
     c = 0x0009 \<or> c = 0x000A \<or> c = 0x000B \<or> c = 0x000C \<or> c = 0x000D \<or> c = 0x0020 \<or>
     c = 0x00A0 \<or> c = 0x1680 \<or> (0x2000 \<le> c \<and> c \<le> 0x200A) \<or> c = 0x2028 \<or> c = 0x2029 \<or>
     c = 0x202F \<or> c = 0x205F \<or> c = 0x3000 \<or> c = 0xFEFF"

definition trim :: "jsstring \<Rightarrow> jsstring" where
  "trim s = rev (dropWhile isWhiteSpace (rev (dropWhile isWhiteSpace s)))"

text \<open>The string of a string value; the program reads it only behind a \<open>typeof\<close> test.\<close>

fun string_of :: "jsvalue \<Rightarrow> jsstring" where
  "string_of (Some (JStr s)) = s"
| "string_of v = []"

text \<open>\<open>Number.prototype.toString\<close> on a non-negative integer: its decimal digits.\<close>

fun toString :: "nat \<Rightarrow> jsstring" where
  "toString n =
     (if n < 10 then [of_nat (48 + n)] else toString (n div 10) @ [of_nat (48 + n mod 10)])"

declare toString.simps [simp del]

section \<open>JSON texts: \<open>JSON.parse\<close> and \<open>JSON.stringify\<close>\<close>

text \<open>
  A JSON text as the grammar reads it, before any JavaScript value is made of it: a number
  is the rational its decimal literal denotes, and an object is its members as written,
  where a key may occur more than once.
\<close>

datatype document =
    DNull
  | DBool bool
  | DNum rat
  | DStr jsstring
  | DArr "document list"
  | DObj "(jsstring \<times> document) list"

text \<open>
  Rounding a rational to a double, to nearest and ties to even. \<open>pow b e\<close> is \<open>b\<close> to the
  integer power \<open>e\<close>, \<open>ilog b n\<close> the integer logarithm of a positive integer and
  \<open>floor_log b x\<close> that of a positive rational. A magnitude is rounded to a multiple of
  the spacing of the doubles around it, \<open>2\<close> to the power of its binary exponent less 52,
  the exponent being at least -1022 (below that the doubles are subnormal). A result of
  \<open>2 ^ 1024\<close> or more is an infinity.
\<close>

definition pow :: "rat \<Rightarrow> int \<Rightarrow> rat" where
  "pow b e = (if 0 \<le> e then b ^ nat e else 1 / b ^ nat (- e))"

function ilog :: "int \<Rightarrow> int \<Rightarrow> nat" where
  "ilog b n = (if b < 2 \<or> n < b then 0 else Suc (ilog b (n div b)))"
  by pat_completeness auto
termination
  by (relation "measure (\<lambda>(b, n). nat n)") (auto intro: int_div_less_self)

declare ilog.simps [simp del]

definition floor_log :: "int \<Rightarrow> rat \<Rightarrow> int" where
  "floor_log b x =
     (let (p, q) = quotient_of x;
          d = int (ilog b p) - int (ilog b q)
      in if pow (of_int b) d \<le> x then d else d - 1)"

definition round_half_even :: "rat \<Rightarrow> int" where
  "round_half_even y =
     (let f = \<lfloor>y\<rfloor>; d = y - of_int f
      in if d < 1 / 2 then f else if 1 / 2 < d then f + 1 else if even f then f else f + 1)"

definition round_magnitude :: "rat \<Rightarrow> rat" where
  "round_magnitude m =
     (let ulp = pow 2 (max (floor_log 2 m) (- 1022) - 52)
      in of_int (round_half_even (m / ulp)) * ulp)"

definition to_double :: "rat \<Rightarrow> jsnumber" where
  "to_double x =
     (if x = 0 then Finite 0
      else let r = round_magnitude \<bar>x\<bar> in
        if 2 ^ 1024 \<le> r then (if 0 < x then PosInfinity else NegInfinity)
        else Finite (if 0 < x then r else - r))"

text \<open>
  \<open>Number::toString\<close>, by the value of the literal it writes: the decimal with the fewest
  significant digits that rounds to the number and, among those, the one closest to it
  (the even one on a tie). For \<open>k\<close> digits the closest decimals below and above the
  magnitude are tried; seventeen digits always suffice for a double.
\<close>

definition candidates :: "rat \<Rightarrow> nat \<Rightarrow> rat list" where
  "candidates m k =
     (let scale = pow 10 (floor_log 10 m - int k + 1);
          lo = of_int \<lfloor>m / scale\<rfloor> * scale;
          hi = lo + scale
      in filter (\<lambda>c. to_double c = Finite m)
           (if m - lo < hi - m then [lo, hi]
            else if hi - m < m - lo then [hi, lo]
            else if even \<lfloor>m / scale\<rfloor> then [lo, hi] else [hi, lo]))"

fun shortest :: "rat \<Rightarrow> nat list \<Rightarrow> rat" where
  "shortest m [] = m"
| "shortest m (k # ks) = (case candidates m k of [] \<Rightarrow> shortest m ks | c # cs \<Rightarrow> c)"

definition digit_counts :: "nat list" where
  "digit_counts = [1, 2, 3, 4, 5, 6, 7, 8, 9, 10, 11, 12, 13, 14, 15, 16, 17]"

definition number_literal :: "rat \<Rightarrow> rat" where
  "number_literal x =
     (if x = 0 then 0
      else if 0 < x then shortest x digit_counts
      else - shortest (- x) digit_counts)"

text \<open>
  The own properties of an object in property order: the keys that are array indices (the
  decimal numerals of 0 to \<open>2 ^ 32 - 2\<close>, without leading zeros) come first, by value, then
  the other keys in the order of their creation. Defining a property that exists replaces
  its value where it is.
\<close>

definition index_value :: "jsstring \<Rightarrow> int" where
  "index_value key = foldl (\<lambda>n c. 10 * n + (uint c - 48)) 0 key"

definition is_array_index :: "jsstring \<Rightarrow> bool" where
  "is_array_index key \<longleftrightarrow>
     key \<noteq> [] \<and> (\<forall>c\<in>set key. 0x30 \<le> c \<and> c \<le> 0x39) \<and>
     (hd key = 0x30 \<longrightarrow> key = [0x30]) \<and> index_value key \<le> 4294967294"

fun define_property ::
  "(jsstring \<times> json) list \<Rightarrow> jsstring \<Rightarrow> json \<Rightarrow> (jsstring \<times> json) list" where
  "define_property [] key v = [(key, v)]"
| "define_property (p # ps) key v =
     (if fst p = key then (key, v) # ps else p # define_property ps key v)"

definition own_properties :: "(jsstring \<times> json) list \<Rightarrow> (jsstring \<times> json) list" where
  "own_properties kvs =
     sort_key (\<lambda>p. index_value (fst p)) (filter (\<lambda>p. is_array_index (fst p)) kvs) @
     filter (\<lambda>p. \<not> is_array_index (fst p)) kvs"

text \<open>
  \<open>JSON.parse\<close>: a number becomes a double, the members of an object are defined from left
  to right. \<open>JSON.stringify\<close> on such a value: a finite number is written by
  \<open>Number::toString\<close>, an infinity as \<open>null\<close>, an object by its own properties in order.
\<close>

fun JSON_parse :: "document \<Rightarrow> json" where
  "JSON_parse DNull = JNull"
| "JSON_parse (DBool b) = JBool b"
| "JSON_parse (DNum q) = JNum (to_double q)"
| "JSON_parse (DStr s) = JStr s"
| "JSON_parse (DArr xs) = JArr (map JSON_parse xs)"
| "JSON_parse (DObj kvs) =
     JObj (own_properties
       (foldl (\<lambda>obj p. define_property obj (fst p) (snd p)) []
          (map (\<lambda>(k, v). (k, JSON_parse v)) kvs)))"

fun JSON_stringify :: "json \<Rightarrow> document" where
  "JSON_stringify JNull = DNull"
| "JSON_stringify (JBool b) = DBool b"
| "JSON_stringify (JNum (Finite x)) = DNum (number_literal x)"
| "JSON_stringify (JNum PosInfinity) = DNull"
| "JSON_stringify (JNum NegInfinity) = DNull"
| "JSON_stringify (JStr s) = DStr s"
| "JSON_stringify (JArr xs) = DArr (map JSON_stringify xs)"
| "JSON_stringify (JObj kvs) = DObj (map (\<lambda>(k, v). (k, JSON_stringify v)) kvs)"

text \<open>
  The texts that parsing and writing leave as they are: each number is written back as it
  was read, and the keys of each object are distinct and none is an array index.
\<close>

definition number_survives :: "rat \<Rightarrow> bool" where
  "number_survives q \<longleftrightarrow>
     (case to_double q of Finite x \<Rightarrow> number_literal x = q | PosInfinity \<Rightarrow> False
      | NegInfinity \<Rightarrow> False)"

fun survives :: "document \<Rightarrow> bool" where
  "survives (DNum q) = number_survives q"
| "survives (DArr xs) = list_all survives xs"
| "survives (DObj kvs) =
     (distinct (map fst kvs) \<and>
      list_all (\<lambda>p. \<not> is_array_index (fst p) \<and> survives (snd p)) kvs)"
| "survives d = True"

section \<open>The platform: fetch, thrown values, the console\<close>

text \<open>
  What a \<open>catch\<close> clause can receive: an instance of \<open>Error\<close> with its message, or any
  other value.
\<close>

datatype thrown = ErrorObj jsstring | NonError

datatype json_outcome = JsonOk json | JsonThrows thrown

record response =
  status :: nat
  statusText :: jsstring
  json_result :: json_outcome

text \<open>\<open>response.ok\<close> is true exactly for the statuses 200 to 299.\<close>

definition ok :: "response \<Rightarrow> bool" where
  "ok r \<longleftrightarrow> 200 \<le> status r \<and> status r \<le> 299"

datatype fetch_outcome = FetchRejects thrown | FetchResolves response

text \<open>
  A call of \<open>fetch\<close>: the address, the method, the headers and the value whose
  \<open>JSON.stringify\<close> is the body.
\<close>

record outbound =
  url :: jsstring
  http_method :: jsstring
  headers :: "(jsstring \<times> jsstring) list"
  body :: json

datatype logentry = ConsoleError jsstring thrown

section \<open>The forwarding gateway: \<open>handleChat\<close>\<close>

text \<open>
  One run of the handler: the calls of \<open>fetch\<close> it made, the responses it sent (status
  and JSON body), what it wrote to the console, and the exception its promise was
  rejected with, if any.
\<close>

record run =
  calls :: "outbound list"
  sent :: "(nat \<times> json) list"
  console :: "logentry list"
  fault :: "thrown option"

definition idle :: run where
  "idle = \<lparr>calls = [], sent = [], console = [], fault = None\<rparr>"

text \<open>
  \<open>res.json(v)\<close> writes \<open>JSON.stringify(v)\<close>: the responses of a run as the statuses and
  JSON texts on the wire.
\<close>

definition wire :: "run \<Rightarrow> (nat \<times> document) list" where
  "wire r = map (\<lambda>(st, v). (st, JSON_stringify v)) (sent r)"

text \<open>
  The condition of the validation: \<open>!message || typeof message !== "string" ||
  !message.trim()\<close>.
\<close>

definition rejected :: "jsvalue \<Rightarrow> bool" where
  "rejected message \<longleftrightarrow>
     \<not> truthy message \<or> typeof message \<noteq> TString \<or>
     \<not> truthy (Some (JStr (trim (string_of message))))"

definition webhook_request :: "jsstring \<Rightarrow> jsvalue \<Rightarrow> outbound" where
  "webhook_request webhookUrl message =
     \<lparr>url = webhookUrl, http_method = js ''POST'',
      headers = [(js ''Content-Type'', js ''application/json'')],
      body = JObj [(js ''query'', JStr (trim (string_of message)))]\<rparr>"

text \<open>
  The body of the \<open>try\<close> block, after the call: the value passed to \<open>res.json\<close>, or the
  exception that reaches the \<open>catch\<close> clause.
\<close>

definition forwarded :: "fetch_outcome \<Rightarrow> thrown + json" where
  "forwarded outcome =
     (case outcome of
        FetchRejects e \<Rightarrow> Inl e
      | FetchResolves response \<Rightarrow>
          if \<not> ok response then
            Inl (ErrorObj (js ''n8n webhook returned status '' @ toString (status response)
                           @ js '': '' @ statusText response))
          else (case json_result response of
                  JsonThrows e \<Rightarrow> Inl e
                | JsonOk data \<Rightarrow> Inr data))"

definition errorMsg :: "thrown \<Rightarrow> jsstring" where
  "errorMsg error =
     (case error of ErrorObj m \<Rightarrow> m | NonError \<Rightarrow> js ''Failed to process your message'')"

text \<open>
  The message of the TypeError of a destructuring of \<open>undefined\<close> or \<open>null\<close>, in the wording
  of V8 (the engine of Node.js); nothing below depends on the wording.
\<close>

definition destructure_error :: "jsvalue \<Rightarrow> jsstring" where
  "destructure_error v =
     js ''Cannot destructure property 'message' of 'req.body' as it is '' @
     (case v of Some JNull \<Rightarrow> js ''null'' | _ \<Rightarrow> js ''undefined'') @ js ''.''"

text \<open>
  The handler, given the value of \<open>process.env.N8N_WEBHOOK_URL\<close>, the behaviour of
  \<open>fetch\<close> and \<open>req.body\<close>. The destructuring of \<open>req.body\<close> is outside the \<open>try\<close>
  block: when it throws, the handler's promise is rejected and nothing is sent.
\<close>

definition handleChat :: "jsstring option \<Rightarrow> (outbound \<Rightarrow> fetch_outcome) \<Rightarrow> jsvalue \<Rightarrow> run" where
  "handleChat env fetch req_body =
     (case get_property req_body (js ''message'') of
        None \<Rightarrow>
          idle\<lparr>fault := Some (ErrorObj (destructure_error req_body))\<rparr>
      | Some message \<Rightarrow>
          if rejected message then
            idle\<lparr>sent := [(400, JObj [(js ''error'', JStr (js ''Message is required''))])]\<rparr>
          else
            (let webhookUrl = map_option JStr env in
             if \<not> truthy webhookUrl then
               idle\<lparr>sent := [(500, JObj [(js ''error'', JStr (js
                 ''N8N_WEBHOOK_URL is not configured. Please set it in your environment variables.''))])]\<rparr>
             else
               (let request = webhook_request (string_of webhookUrl) message in
                case forwarded (fetch request) of
                  Inr data \<Rightarrow> idle\<lparr>calls := [request], sent := [(200, data)]\<rparr>
                | Inl error \<Rightarrow>
                    idle\<lparr>calls := [request],
                         console := [ConsoleError (js ''Chat API error:'') error],
                         sent := [(500, JObj [(js ''error'', JStr (errorMsg error)),
                           (js ''message'', JStr (js
                             ''Unable to reach the chat service. Please try again later.''))])]\<rparr>)))"

section \<open>The client bridge: \<open>sendMessage\<close>\<close>

datatype sender = User | Bot

record message =
  msg_id :: jsstring
  msg_text :: jsvalue
  sender :: sender
  timestamp :: nat

text \<open>
  The four state variables of the component and, beside them, the effects of a run: the
  calls of \<open>fetch\<close>, the lines written to the console and the calls of \<open>focus\<close> on the
  entry field.
\<close>

record chat =
  messages :: "message list"
  input :: jsstring
  isLoading :: bool
  error :: "jsstring option"
  requests :: "outbound list"
  browser_console :: "logentry list"
  focus_calls :: nat

text \<open>\<open>Date.now()\<close> and \<open>new Date()\<close> are parameters \<open>now\<close> and \<open>date\<close>, in milliseconds.\<close>

definition userMessage :: "nat \<Rightarrow> nat \<Rightarrow> jsstring \<Rightarrow> message" where
  "userMessage now date raw =
     \<lparr>msg_id = toString now, msg_text = Some (JStr raw), sender = User, timestamp = date\<rparr>"

definition botMessage :: "nat \<Rightarrow> nat \<Rightarrow> jsvalue \<Rightarrow> message" where
  "botMessage now date botReply =
     \<lparr>msg_id = toString (now + 1), msg_text = botReply, sender = Bot, timestamp = date\<rparr>"

text \<open>The state updates that precede the request.\<close>

definition submit :: "nat \<Rightarrow> nat \<Rightarrow> chat \<Rightarrow> chat" where
  "submit now date s =
     s\<lparr>messages := messages s @ [userMessage now date (input s)],
       input := [], error := None, isLoading := True\<rparr>"

definition api_request :: "jsstring \<Rightarrow> outbound" where
  "api_request raw =
     \<lparr>url = js ''/api/chat'', http_method = js ''POST'',
      headers = [(js ''Content-Type'', js ''application/json'')],
      body = JObj [(js ''message'', JStr raw)]\<rparr>"

text \<open>
  The message of the TypeError of \<open>data.reply\<close> when \<open>data\<close> is \<open>null\<close>, in the wording of V8
  (other browsers word it differently); nothing below depends on the wording.
\<close>

definition null_access_error :: jsstring where
  "null_access_error = js ''Cannot read properties of null (reading 'reply')''"

text \<open>
  The \<open>try\<close> block after the call: the text of the bot entry
  (\<open>data.reply || data.message || "No response from bot"\<close>), or the exception that
  reaches the \<open>catch\<close> clause.
\<close>

definition botReply :: "fetch_outcome \<Rightarrow> thrown + jsvalue" where
  "botReply outcome =
     (case outcome of
        FetchRejects e \<Rightarrow> Inl e
      | FetchResolves response \<Rightarrow>
          if \<not> ok response then Inl (ErrorObj (js ''API error: '' @ statusText response))
          else (case json_result response of
                  JsonThrows e \<Rightarrow> Inl e
                | JsonOk data \<Rightarrow>
                    (case get_property (Some data) (js ''reply'') of
                       None \<Rightarrow> Inl (ErrorObj null_access_error)
                     | Some reply \<Rightarrow>
                         Inr (js_or (js_or reply (member_of data (js ''message'')))
                                (Some (JStr (js ''No response from bot'')))))))"

text \<open>What follows the call: the \<open>try\<close> block, the \<open>catch\<close> clause and the \<open>finally\<close> clause.\<close>

definition settle :: "nat \<Rightarrow> nat \<Rightarrow> fetch_outcome \<Rightarrow> chat \<Rightarrow> chat" where
  "settle now date outcome s =
     (let s' = (case botReply outcome of
                  Inr reply \<Rightarrow> s\<lparr>messages := messages s @ [botMessage now date reply]\<rparr>
                | Inl err \<Rightarrow>
                    s\<lparr>error := Some (case err of ErrorObj m \<Rightarrow> m
                                       | NonError \<Rightarrow> js ''Failed to send message''),
                      browser_console := browser_console s @ [ConsoleError (js ''Chat error:'') err]\<rparr>)
      in s'\<lparr>isLoading := False, focus_calls := focus_calls s' + 1\<rparr>)"

text \<open>
  One submission. \<open>now\<close> and \<open>date\<close> are the clock readings for the user entry,
  \<open>now'\<close> and \<open>date'\<close> those for the bot entry. The request carries the input as it was
  when the form was submitted.
\<close>

definition sendMessage ::
  "nat \<Rightarrow> nat \<Rightarrow> nat \<Rightarrow> nat \<Rightarrow> (outbound \<Rightarrow> fetch_outcome) \<Rightarrow> chat \<Rightarrow> chat" where
  "sendMessage now date now' date' fetch s =
     (if \<not> truthy (Some (JStr (trim (input s)))) then s
      else
        (let request = api_request (input s);
             s1 = submit now date s;
             s2 = s1\<lparr>requests := requests s1 @ [request]\<rparr>
         in settle now' date' (fetch request) s2))"

section \<open>Basic facts\<close>

lemma js_eq_Nil [simp]: "js s = [] \<longleftrightarrow> s = []"
  by (simp add: js_def)

lemma strip_right: "rev (dropWhile P (rev xs)) @ rev (takeWhile P (rev xs)) = xs"
proof -
  have "rev (takeWhile P (rev xs) @ dropWhile P (rev xs)) = xs"
    by simp
  then show ?thesis
    by (simp only: rev_append)
qed

text \<open>
  \<open>trim\<close> only removes white space, and only at the ends: the string is the trimmed
  string between two runs of white space, and the trimmed string neither starts nor ends
  with white space.
\<close>

lemma trim_decomp:
  "\<exists>pre suf. s = pre @ trim s @ suf \<and>
     (\<forall>c\<in>set pre. isWhiteSpace c) \<and> (\<forall>c\<in>set suf. isWhiteSpace c)"
proof -
  define t where "t = dropWhile isWhiteSpace s"
  have s: "s = takeWhile isWhiteSpace s @ t"
    by (simp add: t_def)
  have t: "t = trim s @ rev (takeWhile isWhiteSpace (rev t))"
    unfolding trim_def t_def by (simp only: strip_right)
  have a: "\<forall>c\<in>set (takeWhile isWhiteSpace s). isWhiteSpace c"
    by (auto dest: set_takeWhileD)
  have b: "\<forall>c\<in>set (rev (takeWhile isWhiteSpace (rev t))). isWhiteSpace c"
    by (auto dest: set_takeWhileD)
  from s t have "s = takeWhile isWhiteSpace s @ trim s @ rev (takeWhile isWhiteSpace (rev t))"
    by simp
  with a b show ?thesis by blast
qed

lemma trim_last: "trim s \<noteq> [] \<Longrightarrow> \<not> isWhiteSpace (last (trim s))"
  by (simp add: trim_def last_rev hd_dropWhile)

lemma trim_hd:
  assumes "trim s \<noteq> []"
  shows "\<not> isWhiteSpace (hd (trim s))"
proof -
  define t where "t = dropWhile isWhiteSpace s"
  have t: "t = trim s @ rev (takeWhile isWhiteSpace (rev t))"
    unfolding trim_def t_def by (simp only: strip_right)
  with assms have "hd t = hd (trim s)"
    by (metis hd_append2)
  moreover from t assms have "t \<noteq> []"
    by auto
  then have "\<not> isWhiteSpace (hd t)"
    unfolding t_def by (rule hd_dropWhile)
  ultimately show ?thesis by simp
qed

text \<open>The validation rejects everything but a string that is not empty once trimmed.\<close>

lemma rejected_iff:
  "rejected message \<longleftrightarrow> (\<forall>s. message = Some (JStr s) \<longrightarrow> trim s = [])"
proof (cases message)
  case None
  then show ?thesis by (simp add: rejected_def)
next
  case (Some v)
  then show ?thesis by (cases v) (auto simp: rejected_def trim_def)
qed

lemma accepted_string: "trim s \<noteq> [] \<Longrightarrow> \<not> rejected (Some (JStr s))"
  by (simp add: rejected_iff)

lemma rejected_cases:
  "message = None \<or> typeof message \<noteq> TString \<or> trim (string_of message) = []
     \<Longrightarrow> rejected message"
  by (auto simp: rejected_def)

lemma handleChat_rejected:
  assumes "get_property req_body (js ''message'') = Some message" and "rejected message"
  shows "handleChat env fetch req_body =
     idle\<lparr>sent := [(400, JObj [(js ''error'', JStr (js ''Message is required''))])]\<rparr>"
  using assms by (simp add: handleChat_def)

lemma handleChat_accepted:
  assumes "get_property req_body (js ''message'') = Some (Some (JStr s))"
    and "trim s \<noteq> []" and "webhookUrl \<noteq> []"
  shows "handleChat (Some webhookUrl) fetch req_body =
     (let request = webhook_request webhookUrl (Some (JStr s)) in
      case forwarded (fetch request) of
        Inr data \<Rightarrow> idle\<lparr>calls := [request], sent := [(200, data)]\<rparr>
      | Inl err \<Rightarrow>
          idle\<lparr>calls := [request],
               console := [ConsoleError (js ''Chat API error:'') err],
               sent := [(500, JObj [(js ''error'', JStr (errorMsg err)),
                 (js ''message'', JStr (js
                   ''Unable to reach the chat service. Please try again later.''))])]\<rparr>)"
  using assms by (simp add: handleChat_def accepted_string)

lemma handleChat_calls:
  assumes "get_property req_body (js ''message'') = Some (Some (JStr s))"
    and "trim s \<noteq> []" and "webhookUrl \<noteq> []"
  shows "calls (handleChat (Some webhookUrl) fetch req_body) =
     [webhook_request webhookUrl (Some (JStr s))]"
  using assms by (simp add: handleChat_accepted Let_def idle_def split: sum.splits)

text \<open>
  With a body that has properties, every path of the handler sends one response, with
  status 200, 400 or 500, and the promise is not rejected.
\<close>

lemma present_body_one_response:
  assumes "get_property req_body (js ''message'') \<noteq> None"
  shows "\<exists>st b. sent (handleChat env fetch req_body) = [(st, b)] \<and> st \<in> {200, 400, 500} \<and>
     fault (handleChat env fetch req_body) = None"
  using assms by (auto simp: handleChat_def idle_def Let_def split: sum.splits)

lemma botReply_success:
  assumes "ok r" and "json_result r = JsonOk data" and "data \<noteq> JNull"
  shows "botReply (FetchResolves r) =
     Inr (js_or (js_or (member_of data (js ''reply'')) (member_of data (js ''message'')))
            (Some (JStr (js ''No response from bot''))))"
  using assms by (cases data) (simp_all add: botReply_def)

lemma botReply_failure:
  assumes "outcome = FetchRejects e \<and> err = e \<or>
         outcome = FetchResolves r \<and> \<not> ok r \<and>
           err = ErrorObj (js ''API error: '' @ statusText r) \<or>
         outcome = FetchResolves r \<and> ok r \<and> json_result r = JsonThrows e \<and> err = e"
  shows "botReply outcome = Inl err"
  using assms by (auto simp: botReply_def)

lemma sendMessage_accepted:
  assumes "trim (input s) \<noteq> []"
  shows "sendMessage now date now' date' fetch s =
     settle now' date' (fetch (api_request (input s)))
       ((submit now date s)\<lparr>requests := requests s @ [api_request (input s)]\<rparr>)"
  using assms by (simp add: sendMessage_def Let_def submit_def)

text \<open>A blank input is not submitted: nothing changes and nothing is requested.\<close>

lemma sendMessage_blank: "trim (input s) = [] \<Longrightarrow> sendMessage now date now' date' fetch s = s"
  by (simp add: sendMessage_def)


section \<open>Facts about numbers and JSON texts\<close>

text \<open>
  The integer logarithms are the logarithms: \<open>floor_log b x\<close> is the exponent \<open>e\<close> with
  \<open>b ^ e \<le> x < b ^ (e + 1)\<close>. A literal of \<open>2 ^ 1024\<close> or more is read as an infinity.
\<close>

lemma pow_power_int: "pow b e = power_int b e"
  by (simp add: pow_def power_int_def power_inverse divide_inverse)

lemma ilog_bounds:
  assumes "2 \<le> b" and "1 \<le> n"
  shows "b ^ ilog b n \<le> n \<and> n < b ^ Suc (ilog b n)"
  using assms
proof (induction b n rule: ilog.induct)
  case (1 b n)
  show ?case
  proof (cases "n < b")
    case True
    with "1.prems" show ?thesis
      by (simp add: ilog.simps)
  next
    case False
    with "1.prems" have d: "1 \<le> n div b"
      using pos_imp_zdiv_pos_iff [of b n] by linarith
    from False "1.prems" have nb: "\<not> (b < 2 \<or> n < b)"
      by simp
    from "1.IH" [OF nb "1.prems"(1) d]
    have ih: "b ^ ilog b (n div b) \<le> n div b" "n div b < b ^ Suc (ilog b (n div b))"
      by simp_all
    have e: "ilog b n = Suc (ilog b (n div b))"
      using nb by (subst ilog.simps) simp
    have b0: "0 < b"
      using "1.prems" by simp
    have dm: "n = b * (n div b) + n mod b"
      by simp
    have m0: "0 \<le> n mod b" and m1: "n mod b < b"
      using b0 by simp_all
    have "b * b ^ ilog b (n div b) \<le> b * (n div b)"
      using ih(1) b0 by simp
    also have "\<dots> \<le> n"
      using dm m0 by linarith
    finally have lo: "b ^ ilog b n \<le> n"
      by (simp add: e)
    have "n div b + 1 \<le> b ^ Suc (ilog b (n div b))"
      using ih(2) by simp
    then have "b * (n div b + 1) \<le> b * b ^ Suc (ilog b (n div b))"
      using b0 by simp
    moreover have "b * (n div b + 1) = b * (n div b) + b"
      by (simp add: distrib_left)
    then have "n < b * (n div b + 1)"
      using dm m1 by linarith
    ultimately have "n < b ^ Suc (ilog b n)"
      by (simp add: e)
    with lo show ?thesis ..
  qed
qed


lemma floor_log_bounds:
  assumes "0 < x" and "2 \<le> b"
  shows "pow (of_int b) (floor_log b x) \<le> x \<and> x < pow (of_int b) (floor_log b x + 1)"
proof -
  obtain p q where pq: "quotient_of x = (p, q)"
    by (cases "quotient_of x")
  then have q0: "0 < q"
    by (rule quotient_of_denom_pos)
  from pq have x: "x = of_int p / of_int q"
    by (rule quotient_of_div)
  with assms(1) q0 have p0: "0 < p"
    by (simp add: zero_less_divide_iff)
  define B :: rat where "B = of_int b"
  define lp where "lp = ilog b p"
  define lq where "lq = ilog b q"
  have B1: "1 < B" and B0: "0 < B"
    using assms(2) by (simp_all add: B_def)
  from ilog_bounds [of b p] assms(2) p0
  have "b ^ lp \<le> p" and "p < b ^ Suc lp"
    by (simp_all add: lp_def)
  then have P: "B ^ lp \<le> of_int p" "of_int p < B ^ Suc lp"
    unfolding B_def by (metis of_int_le_iff of_int_power, metis of_int_less_iff of_int_power)
  from ilog_bounds [of b q] assms(2) q0
  have "b ^ lq \<le> q" and "q < b ^ Suc lq"
    by (simp_all add: lq_def)
  then have Q: "B ^ lq \<le> of_int q" "of_int q < B ^ Suc lq"
    unfolding B_def by (metis of_int_le_iff of_int_power, metis of_int_less_iff of_int_power)
  have Q0: "(0::rat) < of_int q" and P0: "(0::rat) < of_int p"
    using q0 p0 by simp_all
  define d where "d = int lp - int lq"
  have up: "x < power_int B (d + 1)"
  proof -
    have "x < B ^ Suc lp / of_int q"
      unfolding x using P(2) Q0 by (simp add: divide_strict_right_mono)
    also have "\<dots> \<le> B ^ Suc lp / B ^ lq"
      using Q(1) B0 by (simp add: frac_le)
    also have "\<dots> = power_int B (int (Suc lp)) / power_int B (int lq)"
      by (simp only: power_int_of_nat)
    also have "\<dots> = power_int B (int (Suc lp) - int lq)"
      using B0 by (subst power_int_diff) simp_all
    also have "int (Suc lp) - int lq = d + 1"
      by (simp add: d_def)
    finally show ?thesis .
  qed
  have lo: "power_int B (d - 1) \<le> x"
  proof -
    have "int lp - int (Suc lq) = d - 1"
      by (simp add: d_def)
    then have "power_int B (d - 1) = power_int B (int lp - int (Suc lq))"
      by (simp only:)
    also have "\<dots> = power_int B (int lp) / power_int B (int (Suc lq))"
      using B0 by (subst power_int_diff) simp_all
    also have "\<dots> = B ^ lp / B ^ Suc lq"
      by (simp only: power_int_of_nat)
    also have "\<dots> \<le> of_int p / B ^ Suc lq"
      using P(1) B0 by (simp add: divide_right_mono)
    also have "\<dots> \<le> x"
      unfolding x using Q(2) P0 Q0 by (simp add: frac_le)
    finally show ?thesis .
  qed
  have fl: "floor_log b x = (if power_int B d \<le> x then d else d - 1)"
    by (simp add: floor_log_def pq Let_def pow_power_int B_def d_def lp_def lq_def)
  show ?thesis
  proof (cases "power_int B d \<le> x")
    case True
    with up fl show ?thesis
      by (simp add: pow_power_int B_def)
  next
    case False
    with lo fl show ?thesis
      by (simp add: pow_power_int B_def)
  qed
qed

lemma round_half_even_floor: "\<lfloor>y\<rfloor> \<le> round_half_even y"
  by (simp add: round_half_even_def Let_def)

lemma round_magnitude_overflow:
  assumes "2 ^ 1024 \<le> m"
  shows "2 ^ 1024 \<le> round_magnitude m"
proof -
  define e where "e = floor_log 2 m"
  have m0: "0 < m"
    using assms by (rule less_le_trans [rotated]) simp
  from floor_log_bounds [OF m0, of 2]
  have b: "power_int 2 e \<le> m" "m < power_int 2 (e + 1)"
    by (simp_all add: pow_power_int e_def)
  have e: "1024 \<le> e"
  proof (rule ccontr)
    assume "\<not> 1024 \<le> e"
    then have "e + 1 \<le> 1024"
      by simp
    then have "power_int (2::rat) (e + 1) \<le> power_int 2 1024"
      by (intro power_int_increasing) simp_all
    with b(2) assms show False
      by simp
  qed
  define ulp :: rat where "ulp = power_int 2 (e - 52)"
  have u0: "0 < ulp"
    by (simp add: ulp_def zero_less_power_int)
  have "power_int (2::rat) (52 + (e - 52)) = power_int 2 52 * power_int 2 (e - 52)"
    by (rule power_int_add) simp
  then have split: "power_int (2::rat) e = 2 ^ 52 * ulp"
    by (simp add: ulp_def)
  with b(1) u0 have "2 ^ 52 \<le> m / ulp"
    by (simp add: pos_le_divide_eq)
  then have "(2::int) ^ 52 \<le> \<lfloor>m / ulp\<rfloor>"
    by (simp add: le_floor_iff)
  with round_half_even_floor [of "m / ulp"] have "(2::int) ^ 52 \<le> round_half_even (m / ulp)"
    by linarith
  then have "(2::rat) ^ 52 \<le> of_int (round_half_even (m / ulp))"
    by (metis of_int_le_iff of_int_numeral of_int_power)
  with u0 have A: "2 ^ 52 * ulp \<le> of_int (round_half_even (m / ulp)) * ulp"
    by (simp add: mult_right_mono)
  have "(2::rat) ^ 1024 \<le> power_int 2 e"
    using e power_int_increasing [of 1024 e "2::rat"] by simp
  then have "(2::rat) ^ 1024 \<le> 2 ^ 52 * ulp"
    by (simp only: split)
  with A have "(2::rat) ^ 1024 \<le> of_int (round_half_even (m / ulp)) * ulp"
    by (rule order_trans [rotated])
  moreover have "round_magnitude m = of_int (round_half_even (m / ulp)) * ulp"
    using e by (simp add: round_magnitude_def Let_def pow_power_int ulp_def e_def max_def)
  ultimately show ?thesis
    by (simp only:)
qed

lemma to_double_overflow: "2 ^ 1024 \<le> x \<Longrightarrow> to_double x = PosInfinity"
  using round_magnitude_overflow [of x]
  by (simp add: to_double_def Let_def abs_if)

lemma to_double_overflow_neg: "x \<le> - (2 ^ 1024) \<Longrightarrow> to_double x = NegInfinity"
  using round_magnitude_overflow [of "- x"]
  by (simp add: to_double_def Let_def abs_if)

text \<open>
  Evaluating the floor of a quotient of numerals.
\<close>

lemma floor_numeral_div:
  "\<lfloor>(numeral a :: rat) / numeral b\<rfloor> = numeral a div numeral b"
  using floor_divide_of_int_eq [of "numeral a" "numeral b", where ?'a = rat] by simp

lemmas number_eval = to_double_def round_magnitude_def floor_log_def round_half_even_def
  pow_def Let_def ilog.simps candidates_def number_literal_def digit_counts_def
  number_survives_def floor_numeral_div

text \<open>
  A text that \<open>survives\<close> is written back as it was read.
\<close>

lemma define_property_fresh:
  "key \<notin> fst ` set ps \<Longrightarrow> define_property ps key v = ps @ [(key, v)]"
  by (induction ps) auto

lemma define_all_distinct:
  "distinct (map fst (obj @ kvs)) \<Longrightarrow>
     foldl (\<lambda>obj p. define_property obj (fst p) (snd p)) obj kvs = obj @ kvs"
proof (induction kvs arbitrary: obj)
  case Nil
  show ?case by simp
next
  case (Cons p kvs)
  from Cons.prems have "fst p \<notin> fst ` set obj"
    by auto
  then have "define_property obj (fst p) (snd p) = obj @ [p]"
    by (simp add: define_property_fresh)
  moreover from Cons.prems have "distinct (map fst ((obj @ [p]) @ kvs))"
    by simp
  ultimately show ?case
    using Cons.IH [of "obj @ [p]"] by simp
qed

lemma own_properties_plain:
  "\<forall>p\<in>set kvs. \<not> is_array_index (fst p) \<Longrightarrow> own_properties kvs = kvs"
  by (simp add: own_properties_def filter_empty_conv)

lemma number_survives_roundtrip:
  "number_survives q \<Longrightarrow> JSON_stringify (JNum (to_double q)) = DNum q"
  by (cases "to_double q") (simp_all add: number_survives_def)

lemma survives_roundtrip: "survives b \<Longrightarrow> JSON_stringify (JSON_parse b) = b"
proof (induction b rule: JSON_parse.induct)
  case (3 q)
  then show ?case
    by (simp add: number_survives_roundtrip)
next
  case (5 xs)
  then have "\<forall>x\<in>set xs. JSON_stringify (JSON_parse x) = x"
    by (simp add: list_all_iff)
  then show ?case
    by (simp add: map_idI)
next
  case (6 kvs)
  let ?kvs = "map (\<lambda>(k, v). (k, JSON_parse v)) kvs"
  have keys: "map fst ?kvs = map fst kvs"
    by (simp add: case_prod_beta comp_def)
  from "6.prems" have dk: "distinct (map fst kvs)"
    by simp
  have "distinct (map fst ([] @ ?kvs))"
    unfolding append_Nil keys by (rule dk)
  then have d: "foldl (\<lambda>obj p. define_property obj (fst p) (snd p)) [] ?kvs = ?kvs"
    using define_all_distinct [of "[]" ?kvs] by simp
  from "6.prems" have "\<forall>p\<in>set ?kvs. \<not> is_array_index (fst p)"
    by (auto simp: list_all_iff)
  then have o: "own_properties ?kvs = ?kvs"
    by (rule own_properties_plain)
  have "\<forall>p\<in>set kvs. JSON_stringify (JSON_parse (snd p)) = snd p"
  proof
    fix p
    assume p: "p \<in> set kvs"
    with "6.prems" have "survives (snd p)"
      by (simp add: list_all_iff)
    with "6.IH" [OF p, of "fst p" "snd p"] show "JSON_stringify (JSON_parse (snd p)) = snd p"
      by simp
  qed
  then have "map (\<lambda>(k, v). (k, JSON_stringify v)) ?kvs = kvs"
    by (simp add: case_prod_beta map_idI)
  with d o show ?case
    by simp
qed simp_all

text \<open>
  Three texts that do not survive: the integer after \<open>2 ^ 53\<close> is read as \<open>2 ^ 53\<close>; of a
  key written twice the last value stays, at the place of the first; an array index is
  moved before the other keys.
\<close>

lemma odd_integer_above_2_53_is_rounded:
  "JSON_stringify (JSON_parse (DNum 9007199254740993)) = DNum 9007199254740992"
proof -
  have "to_double 9007199254740993 = Finite 9007199254740992"
    by (simp add: number_eval split del: if_split)
  moreover have "number_literal 9007199254740992 = 9007199254740992"
    by (simp add: number_eval split del: if_split)
  ultimately show ?thesis
    by simp
qed

lemma repeated_key_keeps_last_value:
  "JSON_stringify (JSON_parse (DObj [(js ''reply'', DStr (js ''a'')), (js ''message'', DNull),
      (js ''reply'', DStr (js ''b''))]))
     = DObj [(js ''reply'', DStr (js ''b'')), (js ''message'', DNull)]"
  by (simp add: own_properties_def is_array_index_def js_def)

lemma array_index_key_comes_first:
  "JSON_stringify (JSON_parse (DObj [(js ''reply'', DStr (js ''a'')), (js ''7'', DNull)]))
     = DObj [(js ''7'', DNull), (js ''reply'', DStr (js ''a''))]"
  by (simp add: own_properties_def is_array_index_def index_value_def js_def)

section \<open>The gateway\<close>

text \<open>
  C1. A valid request is one whose \<open>message\<close> is a string that is not empty once trimmed,
  with the webhook address configured. The handler then calls \<open>fetch\<close> once, on the
  configured address, with \<open>Content-Type: application/json\<close> and the body
  \<open>{query: message.trim()}\<close>. The query differs from the message by white space at the two
  ends only: the message is the query between two runs of white space, and the query
  neither starts nor ends with white space.
\<close>

theorem query_is_trimmed_message:
  assumes "get_property req_body (js ''message'') = Some (Some (JStr s))"
    and "trim s \<noteq> []" and "webhookUrl \<noteq> []"
  shows "\<exists>pre suf.
     calls (handleChat (Some webhookUrl) fetch req_body) =
       [\<lparr>url = webhookUrl, http_method = js ''POST'',
         headers = [(js ''Content-Type'', js ''application/json'')],
         body = JObj [(js ''query'', JStr (trim s))]\<rparr>] \<and>
     s = pre @ trim s @ suf \<and>
     (\<forall>c\<in>set (pre @ suf). isWhiteSpace c) \<and>
     \<not> isWhiteSpace (hd (trim s)) \<and> \<not> isWhiteSpace (last (trim s))"
proof -
  obtain pre suf where d: "s = pre @ trim s @ suf"
    "\<forall>c\<in>set pre. isWhiteSpace c" "\<forall>c\<in>set suf. isWhiteSpace c"
    using trim_decomp by blast
  have c: "calls (handleChat (Some webhookUrl) fetch req_body) =
       [\<lparr>url = webhookUrl, http_method = js ''POST'',
         headers = [(js ''Content-Type'', js ''application/json'')],
         body = JObj [(js ''query'', JStr (trim s))]\<rparr>]"
    using assms by (simp add: handleChat_calls webhook_request_def)
  from d(2,3) have w: "\<forall>c\<in>set (pre @ suf). isWhiteSpace c"
    by auto
  from c d(1) w trim_hd [OF assms(2)] trim_last [OF assms(2)] show ?thesis
    by blast
qed

theorem query_is_trimmed_message_witness:
  "get_property (Some (JObj [(js ''message'', JStr (js ''  Hello ''))])) (js ''message'')
     = Some (Some (JStr (js ''  Hello ''))) \<and>
   trim (js ''  Hello '') \<noteq> [] \<and> js ''http://n8n.local/hook'' \<noteq> [] \<and>
   map body (calls (handleChat (Some (js ''http://n8n.local/hook''))
     (\<lambda>request. FetchRejects NonError)
     (Some (JObj [(js ''message'', JStr (js ''  Hello ''))]))))
     = [JObj [(js ''query'', JStr (js ''Hello''))]]"
proof -
  have h1: "get_property (Some (JObj [(js ''message'', JStr (js ''  Hello ''))])) (js ''message'')
     = Some (Some (JStr (js ''  Hello '')))"
    by simp
  have t: "trim (js ''  Hello '') = js ''Hello''"
    by (simp add: trim_def js_def isWhiteSpace_def)
  have h2: "trim (js ''  Hello '') \<noteq> []"
    by (simp add: t)
  have h3: "js ''http://n8n.local/hook'' \<noteq> []"
    by simp
  from query_is_trimmed_message [OF h1 h2 h3, of "\<lambda>request. FetchRejects NonError"] h1 h2 h3 t
  show ?thesis by auto
qed

text \<open>
  C2, as the specification states it, returns every parsable body unmodified. The handler
  parses the body and writes the parsed value again, and a number too large for a double
  is parsed to \<open>Infinity\<close> and written as \<open>null\<close>: the body \<open>{"reply": 1e309}\<close> comes back as
  \<open>{"reply": null}\<close>.
\<close>

theorem large_number_comes_back_null:
  "wire (handleChat (Some (js ''http://n8n.local/hook''))
     (\<lambda>request. FetchResolves \<lparr>status = 200, statusText = js ''OK'',
        json_result = JsonOk (JSON_parse (DObj [(js ''reply'', DNum (10 ^ 309))]))\<rparr>)
     (Some (JObj [(js ''message'', JStr (js ''Hello''))])))
     = [(200, DObj [(js ''reply'', DNull)])] \<and>
   DObj [(js ''reply'', DNull)] \<noteq> DObj [(js ''reply'', DNum (10 ^ 309))]"
proof -
  have "to_double (10 ^ 309) = PosInfinity"
    by (rule to_double_overflow) simp
  then have p: "JSON_parse (DObj [(js ''reply'', DNum (10 ^ 309))])
      = JObj [(js ''reply'', JNum PosInfinity)]"
    by (simp add: own_properties_def is_array_index_def js_def)
  have t: "trim (js ''Hello'') \<noteq> []"
    by (simp add: trim_def js_def isWhiteSpace_def)
  have "handleChat (Some (js ''http://n8n.local/hook''))
     (\<lambda>request. FetchResolves \<lparr>status = 200, statusText = js ''OK'',
        json_result = JsonOk (JObj [(js ''reply'', JNum PosInfinity)])\<rparr>)
     (Some (JObj [(js ''message'', JStr (js ''Hello''))]))
     = idle\<lparr>calls := [webhook_request (js ''http://n8n.local/hook'') (Some (JStr (js ''Hello'')))],
            sent := [(200, JObj [(js ''reply'', JNum PosInfinity)])]\<rparr>"
    using t by (simp add: handleChat_accepted forwarded_def ok_def)
  then show ?thesis
    unfolding p by (simp add: wire_def idle_def)
qed

text \<open>
  C2, amended. For a valid request, when the webhook answers with a success status and a
  body that parses as JSON, the handler sends one response, status 200, and passes the
  parsed body to \<open>res.json\<close> as it is, reading no field of it: the response is the body
  parsed and written again. It is the body unmodified when each number of the body is one
  that a double writes back as it was read and the keys of each object are distinct and
  not array indices; so every body of strings, booleans, \<open>null\<close>, arrays and such objects
  is returned unmodified. The handler logs nothing and does not fail.
\<close>

theorem webhook_body_parsed_and_written_again:
  assumes "get_property req_body (js ''message'') = Some (Some (JStr s))"
    and "trim s \<noteq> []" and "webhookUrl \<noteq> []"
    and "\<forall>request. url request = webhookUrl \<longrightarrow> fetch request = FetchResolves r"
    and "ok r" and "json_result r = JsonOk (JSON_parse b)"
  shows "sent (handleChat (Some webhookUrl) fetch req_body) = [(200, JSON_parse b)] \<and>
         wire (handleChat (Some webhookUrl) fetch req_body) =
           [(200, JSON_stringify (JSON_parse b))] \<and>
         (survives b \<longrightarrow> wire (handleChat (Some webhookUrl) fetch req_body) = [(200, b)]) \<and>
         fault (handleChat (Some webhookUrl) fetch req_body) = None \<and>
         console (handleChat (Some webhookUrl) fetch req_body) = []"
proof -
  have "fetch (webhook_request webhookUrl (Some (JStr s))) = FetchResolves r"
    using assms(4) by (simp add: webhook_request_def)
  then have "forwarded (fetch (webhook_request webhookUrl (Some (JStr s)))) = Inr (JSON_parse b)"
    using assms(5,6) by (simp add: forwarded_def)
  then have h: "handleChat (Some webhookUrl) fetch req_body =
      idle\<lparr>calls := [webhook_request webhookUrl (Some (JStr s))],
           sent := [(200, JSON_parse b)]\<rparr>"
    using assms(1-3) by (simp add: handleChat_accepted)
  show ?thesis
    by (simp add: h wire_def idle_def survives_roundtrip)
qed

theorem webhook_body_parsed_and_written_again_witness:
  "trim (js ''Hello'') \<noteq> [] \<and>
   ok \<lparr>status = 200, statusText = js ''OK'',
       json_result = JsonOk (JSON_parse
         (DObj [(js ''reply'', DStr (js ''Hi there'')), (js ''score'', DNum 42)]))\<rparr> \<and>
   survives (DObj [(js ''reply'', DStr (js ''Hi there'')), (js ''score'', DNum 42)]) \<and>
   wire (handleChat (Some (js ''http://n8n.local/hook''))
     (\<lambda>request. FetchResolves \<lparr>status = 200, statusText = js ''OK'',
        json_result = JsonOk (JSON_parse
          (DObj [(js ''reply'', DStr (js ''Hi there'')), (js ''score'', DNum 42)]))\<rparr>)
     (Some (JObj [(js ''message'', JStr (js ''Hello''))])))
     = [(200, DObj [(js ''reply'', DStr (js ''Hi there'')), (js ''score'', DNum 42)])]"
proof -
  let ?b = "DObj [(js ''reply'', DStr (js ''Hi there'')), (js ''score'', DNum 42)]"
  let ?r = "\<lparr>status = 200, statusText = js ''OK'', json_result = JsonOk (JSON_parse ?b)\<rparr>"
  have h1: "get_property (Some (JObj [(js ''message'', JStr (js ''Hello''))])) (js ''message'')
     = Some (Some (JStr (js ''Hello'')))"
    by simp
  have h2: "trim (js ''Hello'') \<noteq> []"
    by (simp add: trim_def js_def isWhiteSpace_def)
  have h3: "js ''http://n8n.local/hook'' \<noteq> []"
    by simp
  have h4: "\<forall>request. url request = js ''http://n8n.local/hook'' \<longrightarrow>
     (\<lambda>request::outbound. FetchResolves ?r) request = FetchResolves ?r"
    by simp
  have h5: "ok ?r"
    by (simp add: ok_def)
  have h6: "json_result ?r = JsonOk (JSON_parse ?b)"
    by simp
  have n: "number_survives 42"
    by (simp add: number_eval split del: if_split)
  have k: "js ''reply'' \<noteq> js ''score''" "\<not> is_array_index (js ''reply'')"
    "\<not> is_array_index (js ''score'')"
    by (simp_all add: is_array_index_def js_def)
  from n k have sv: "survives ?b"
    by simp
  note T = webhook_body_parsed_and_written_again [OF h1 h2 h3 h4 h5 h6]
  from T have "survives ?b \<longrightarrow> wire (handleChat (Some (js ''http://n8n.local/hook''))
     (\<lambda>request. FetchResolves ?r) (Some (JObj [(js ''message'', JStr (js ''Hello''))])))
     = [(200, ?b)]"
    by (elim conjE)
  with sv h2 h5 show ?thesis
    by (simp only: simp_thms)
qed

text \<open>
  When the body has properties and its \<open>message\<close> is missing, is not a string, or is empty
  once trimmed (a string of white space is), the handler sends status 400 with
  \<open>{error: "Message is required"}\<close> and does not call \<open>fetch\<close>, whatever the configuration.
\<close>

lemma invalid_message_gets_400:
  assumes "get_property req_body (js ''message'') = Some message"
    and "message = None \<or> typeof message \<noteq> TString \<or> trim (string_of message) = []"
  shows "sent (handleChat env fetch req_body) =
           [(400, JObj [(js ''error'', JStr (js ''Message is required''))])] \<and>
         calls (handleChat env fetch req_body) = []"
  using assms by (simp add: handleChat_rejected rejected_cases idle_def)

lemma invalid_message_gets_400_example:
  "trim (js ''   '') = [] \<and>
   sent (handleChat (Some (js ''http://n8n.local/hook'')) (\<lambda>request. FetchRejects NonError)
     (Some (JObj [(js ''message'', JStr (js ''   ''))])))
     = [(400, JObj [(js ''error'', JStr (js ''Message is required''))])] \<and>
   calls (handleChat (Some (js ''http://n8n.local/hook'')) (\<lambda>request. FetchRejects NonError)
     (Some (JObj [(js ''message'', JStr (js ''   ''))]))) = []"
proof -
  have h1: "get_property (Some (JObj [(js ''message'', JStr (js ''   ''))])) (js ''message'')
     = Some (Some (JStr (js ''   '')))"
    by simp
  have t: "trim (js ''   '') = []"
    by (simp add: trim_def js_def isWhiteSpace_def)
  then have h2: "Some (JStr (js ''   '')) = None \<or> typeof (Some (JStr (js ''   ''))) \<noteq> TString \<or>
     trim (string_of (Some (JStr (js ''   '')))) = []"
    by simp
  from invalid_message_gets_400 [OF h1 h2, of "Some (js ''http://n8n.local/hook'')"
    "\<lambda>request. FetchRejects NonError"] t
  show ?thesis by simp
qed

text \<open>
  C3. A request without a body has no \<open>message\<close>, and the specification asks for status 400
  with \<open>{error: "Message is required"}\<close>. The handler reads \<open>message\<close> off the body before the
  validation: on an absent body the read throws, the validation is not reached and the 400
  is not sent; the handler's promise is rejected with the TypeError.
\<close>

theorem absent_body_gets_no_400:
  "get_property None (js ''message'') = None \<and>
   (400, JObj [(js ''error'', JStr (js ''Message is required''))])
     \<notin> set (sent (handleChat env fetch None)) \<and>
   fault (handleChat env fetch None) = Some (ErrorObj (destructure_error None))"
  by (simp add: handleChat_def idle_def)

text \<open>
  C4. For a valid request, when the call of \<open>fetch\<close> throws, or the webhook answers with a
  status outside 200 to 299, or the body does not parse, the handler sends status 500 with
  \<open>{error: m, message: "Unable to reach the chat service. Please try again later."}\<close>,
  where \<open>m\<close> is the message of the exception when it is an \<open>Error\<close> (for a status, the
  text built from the status and the status text) and a fixed text otherwise; and it
  writes the exception to the console.
\<close>

theorem upstream_failure_gets_500:
  assumes "get_property req_body (js ''message'') = Some (Some (JStr s))"
    and "trim s \<noteq> []" and "webhookUrl \<noteq> []"
    and "\<forall>request. url request = webhookUrl \<longrightarrow> fetch request = outcome"
    and "outcome = FetchRejects e \<and> err = e \<or>
         outcome = FetchResolves r \<and> \<not> ok r \<and>
           err = ErrorObj (js ''n8n webhook returned status '' @ toString (status r)
                           @ js '': '' @ statusText r) \<or>
         outcome = FetchResolves r \<and> ok r \<and> json_result r = JsonThrows e \<and> err = e"
  shows "sent (handleChat (Some webhookUrl) fetch req_body) =
           [(500, JObj [(js ''error'', JStr (case err of ErrorObj m \<Rightarrow> m
                          | NonError \<Rightarrow> js ''Failed to process your message'')),
                        (js ''message'', JStr (js
                          ''Unable to reach the chat service. Please try again later.''))])] \<and>
         console (handleChat (Some webhookUrl) fetch req_body) =
           [ConsoleError (js ''Chat API error:'') err] \<and>
         fault (handleChat (Some webhookUrl) fetch req_body) = None"
proof -
  have "fetch (webhook_request webhookUrl (Some (JStr s))) = outcome"
    using assms(4) by (simp add: webhook_request_def)
  moreover have "forwarded outcome = Inl err"
    using assms(5) by (auto simp: forwarded_def)
  ultimately show ?thesis
    using assms(1-3) by (simp add: handleChat_accepted idle_def errorMsg_def)
qed

theorem upstream_failure_gets_500_witness:
  "trim (js ''Hello'') \<noteq> [] \<and>
   \<not> ok \<lparr>status = 503, statusText = js ''Service Unavailable'',
         json_result = JsonThrows NonError\<rparr> \<and>
   sent (handleChat (Some (js ''http://n8n.local/hook''))
     (\<lambda>request. FetchResolves \<lparr>status = 503, statusText = js ''Service Unavailable'',
        json_result = JsonThrows NonError\<rparr>)
     (Some (JObj [(js ''message'', JStr (js ''Hello''))])))
     = [(500, JObj [(js ''error'',
                     JStr (js ''n8n webhook returned status 503: Service Unavailable'')),
                    (js ''message'', JStr (js
                      ''Unable to reach the chat service. Please try again later.''))])]"
proof -
  let ?r = "\<lparr>status = 503, statusText = js ''Service Unavailable'',
        json_result = JsonThrows NonError\<rparr>"
  let ?err = "ErrorObj (js ''n8n webhook returned status '' @ toString (status ?r)
                        @ js '': '' @ statusText ?r)"
  have h1: "get_property (Some (JObj [(js ''message'', JStr (js ''Hello''))])) (js ''message'')
     = Some (Some (JStr (js ''Hello'')))"
    by simp
  have h2: "trim (js ''Hello'') \<noteq> []"
    by (simp add: trim_def js_def isWhiteSpace_def)
  have h3: "js ''http://n8n.local/hook'' \<noteq> []"
    by simp
  have h4: "\<forall>request. url request = js ''http://n8n.local/hook'' \<longrightarrow>
     (\<lambda>request::outbound. FetchResolves ?r) request = FetchResolves ?r"
    by simp
  have n: "\<not> ok ?r"
    by (simp add: ok_def)
  then have h5: "FetchResolves ?r = FetchRejects NonError \<and> ?err = NonError \<or>
         FetchResolves ?r = FetchResolves ?r \<and> \<not> ok ?r \<and>
           ?err = ErrorObj (js ''n8n webhook returned status '' @ toString (status ?r)
                            @ js '': '' @ statusText ?r) \<or>
         FetchResolves ?r = FetchResolves ?r \<and> ok ?r \<and> json_result ?r = JsonThrows NonError \<and>
           ?err = NonError"
    by simp
  have m: "js ''n8n webhook returned status '' @ toString 503 @ js '': '' @
      js ''Service Unavailable'' = js ''n8n webhook returned status 503: Service Unavailable''"
    by (simp add: toString.simps js_def)
  from upstream_failure_gets_500 [OF h1 h2 h3 h4 h5] h2 n m
  show ?thesis by simp
qed

text \<open>
  C6. When \<open>N8N_WEBHOOK_URL\<close> is not set, a request with a valid message gets status 500
  with the configuration message in \<open>error\<close>, and \<open>fetch\<close> is not called.
\<close>

theorem unset_webhook_gets_500:
  assumes "get_property req_body (js ''message'') = Some (Some (JStr s))"
    and "trim s \<noteq> []"
  shows "sent (handleChat None fetch req_body) =
           [(500, JObj [(js ''error'', JStr (js
              ''N8N_WEBHOOK_URL is not configured. Please set it in your environment variables.''))])] \<and>
         calls (handleChat None fetch req_body) = []"
  using assms by (simp add: handleChat_def accepted_string idle_def)

theorem unset_webhook_gets_500_witness:
  "trim (js ''Hello'') \<noteq> [] \<and>
   map fst (sent (handleChat None (\<lambda>request. FetchRejects NonError)
     (Some (JObj [(js ''message'', JStr (js ''Hello''))])))) = [500] \<and>
   calls (handleChat None (\<lambda>request. FetchRejects NonError)
     (Some (JObj [(js ''message'', JStr (js ''Hello''))]))) = []"
proof -
  have h1: "get_property (Some (JObj [(js ''message'', JStr (js ''Hello''))])) (js ''message'')
     = Some (Some (JStr (js ''Hello'')))"
    by simp
  have h2: "trim (js ''Hello'') \<noteq> []"
    by (simp add: trim_def js_def isWhiteSpace_def)
  from unset_webhook_gets_500 [OF h1 h2, of "\<lambda>request. FetchRejects NonError"] h2
  show ?thesis by simp
qed

text \<open>
  C7. The request body is destructured before the validation and outside the \<open>try\<close>
  block. When the body is absent (\<open>undefined\<close>), the destructuring throws: the handler's
  promise is rejected and the handler sends no response, whatever the configuration and
  the webhook.
\<close>

theorem absent_body_faults:
  "fault (handleChat env fetch None) \<noteq> None \<and> sent (handleChat env fetch None) = []"
  by (simp add: handleChat_def idle_def)

text \<open>
  The validation comes first: when the body has properties and its \<open>message\<close> is missing,
  is not a string, or is empty once trimmed, the handler sends status 400 with
  \<open>{error: "Message is required"}\<close> also when \<open>N8N_WEBHOOK_URL\<close> is not set; and whatever the
  configuration, the one response it sends has status 400 and that \<open>error\<close>, not the
  configuration message.
\<close>

lemma validation_precedes_configuration:
  assumes "get_property req_body (js ''message'') = Some message"
    and "message = None \<or> typeof message \<noteq> TString \<or> trim (string_of message) = []"
  shows "sent (handleChat None fetch req_body) =
           [(400, JObj [(js ''error'', JStr (js ''Message is required''))])] \<and>
         (\<forall>env. \<forall>(st, b)\<in>set (sent (handleChat env fetch req_body)).
            st = 400 \<and> member_of b (js ''error'') = Some (JStr (js ''Message is required'')))"
  using assms by (simp add: handleChat_rejected rejected_cases idle_def)

lemma validation_precedes_configuration_example:
  "get_property (Some (JObj [])) (js ''message'') = Some None \<and>
   sent (handleChat None (\<lambda>request. FetchRejects NonError) (Some (JObj [])))
     = [(400, JObj [(js ''error'', JStr (js ''Message is required''))])]"
proof -
  have h1: "get_property (Some (JObj [])) (js ''message'') = Some None"
    by simp
  have h2: "(None :: jsvalue) = None \<or> typeof None \<noteq> TString \<or> trim (string_of None) = []"
    by simp
  from validation_precedes_configuration [OF h1 h2, of "\<lambda>request. FetchRejects NonError"] h1
  show ?thesis by simp
qed

text \<open>
  C9. With \<open>N8N_WEBHOOK_URL\<close> not set, a request whose body is absent or \<open>null\<close> has no
  \<open>message\<close>, and the specification asks for the 400 of the validation. The handler sends
  neither that nor the configuration error: reading \<open>message\<close> off such a body throws before
  the validation, no response is sent and the handler's promise is rejected.
\<close>

theorem bodiless_request_unset_webhook_gets_no_400:
  "sent (handleChat None fetch None) = [] \<and>
   sent (handleChat None fetch (Some JNull)) = [] \<and>
   fault (handleChat None fetch None) \<noteq> None \<and>
   fault (handleChat None fetch (Some JNull)) \<noteq> None"
  by (simp add: handleChat_def idle_def)

section \<open>The client\<close>

text \<open>
  C5, as the specification states it, gives the \<open>reply\<close> field whenever it is present. The
  operator \<open>||\<close> skips a field that is present but falsy: with the body
  \<open>{reply: "", message: "Hi"}\<close> the \<open>reply\<close> field is present and is the empty string, and
  the text of the bot entry is \<open>"Hi"\<close>.
\<close>

theorem empty_reply_is_skipped:
  "member_of (JObj [(js ''reply'', JStr []), (js ''message'', JStr (js ''Hi''))]) (js ''reply'')
     = Some (JStr []) \<and>
   map msg_text (messages (settle 41 42
     (FetchResolves \<lparr>status = 200, statusText = js ''OK'',
        json_result = JsonOk (JObj [(js ''reply'', JStr []), (js ''message'', JStr (js ''Hi''))])\<rparr>)
     \<lparr>messages = [], input = [], isLoading = True, error = None, requests = [],
      browser_console = [], focus_calls = 0\<rparr>)) = [Some (JStr (js ''Hi''))] \<and>
   Some (JStr (js ''Hi'')) \<noteq> Some (JStr [])"
proof -
  have k: "js ''message'' \<noteq> js ''reply''"
    by (simp add: js_def)
  show ?thesis
    using k by (simp add: settle_def botReply_def ok_def js_or_def botMessage_def)
qed

text \<open>
  C5, amended. For a response with a success status whose body parses to a value other than
  \<open>null\<close>, the client appends one bot entry whose text is the \<open>reply\<close> field when that is
  truthy (present and not \<open>null\<close>, \<open>false\<close>, zero or the empty string), else the \<open>message\<close>
  field when that is truthy, else \<open>"No response from bot"\<close>. The body \<open>{message: "Hi"}\<close>
  gives the text \<open>"Hi"\<close>.
\<close>

theorem bot_text_first_truthy_field:
  assumes "ok r" and "json_result r = JsonOk data" and "data \<noteq> JNull"
  shows "messages (settle now date (FetchResolves r) s) = messages s @
     [\<lparr>msg_id = toString (now + 1),
       msg_text = (if truthy (member_of data (js ''reply'')) then member_of data (js ''reply'')
                   else if truthy (member_of data (js ''message''))
                     then member_of data (js ''message'')
                   else Some (JStr (js ''No response from bot''))),
       sender = Bot, timestamp = date\<rparr>]"
  using assms by (simp add: settle_def botReply_success js_or_def botMessage_def)

theorem bot_text_first_truthy_field_witness:
  "ok \<lparr>status = 200, statusText = js ''OK'',
       json_result = JsonOk (JObj [(js ''message'', JStr (js ''Hi''))])\<rparr> \<and>
   JObj [(js ''message'', JStr (js ''Hi''))] \<noteq> JNull \<and>
   map msg_text (messages (settle 41 42
     (FetchResolves \<lparr>status = 200, statusText = js ''OK'',
        json_result = JsonOk (JObj [(js ''message'', JStr (js ''Hi''))])\<rparr>)
     \<lparr>messages = [], input = [], isLoading = True, error = None, requests = [],
      browser_console = [], focus_calls = 0\<rparr>)) = [Some (JStr (js ''Hi''))]"
proof -
  let ?r = "\<lparr>status = 200, statusText = js ''OK'',
       json_result = JsonOk (JObj [(js ''message'', JStr (js ''Hi''))])\<rparr>"
  have h1: "ok ?r"
    by (simp add: ok_def)
  have h2: "json_result ?r = JsonOk (JObj [(js ''message'', JStr (js ''Hi''))])"
    by simp
  have h3: "JObj [(js ''message'', JStr (js ''Hi''))] \<noteq> JNull"
    by simp
  have k: "js ''message'' \<noteq> js ''reply''"
    by (simp add: js_def)
  from bot_text_first_truthy_field [OF h1 h2 h3, of 41 42
     "\<lparr>messages = [], input = [], isLoading = True, error = None, requests = [],
      browser_console = [], focus_calls = 0\<rparr>"] h1 h3 k
  show ?thesis by simp
qed

text \<open>
  C8. For a submission (an input that is not empty once trimmed) whose request fails, by a
  rejected \<open>fetch\<close>, a status outside 200 to 299 or a body that does not parse, the error
  slot holds the message of the failure (for a status, \<open>"API error: "\<close> and the status
  text; for a thrown value that is not an \<open>Error\<close>, \<open>"Failed to send message"\<close>) whatever it
  held before; the bot entries of the transcript are those there were; and the loading
  flag is off, as it is after any submission, failed or not.
\<close>

theorem failed_request_sets_error:
  assumes "trim (input s) \<noteq> []"
    and "fetch (api_request (input s)) = outcome"
    and "outcome = FetchRejects e \<and> err = e \<or>
         outcome = FetchResolves r \<and> \<not> ok r \<and>
           err = ErrorObj (js ''API error: '' @ statusText r) \<or>
         outcome = FetchResolves r \<and> ok r \<and> json_result r = JsonThrows e \<and> err = e"
  shows "error (sendMessage now date now' date' fetch s) =
           Some (case err of ErrorObj m \<Rightarrow> m | NonError \<Rightarrow> js ''Failed to send message'') \<and>
         filter (\<lambda>m. sender m = Bot) (messages (sendMessage now date now' date' fetch s)) =
           filter (\<lambda>m. sender m = Bot) (messages s) \<and>
         isLoading (sendMessage now date now' date' fetch s) = False \<and>
         (\<forall>fetch'. isLoading (sendMessage now date now' date' fetch' s) = False)"
proof -
  have "botReply outcome = Inl err"
    using assms(3) by (rule botReply_failure)
  then have "error (sendMessage now date now' date' fetch s) =
           Some (case err of ErrorObj m \<Rightarrow> m | NonError \<Rightarrow> js ''Failed to send message'')"
    and "filter (\<lambda>m. sender m = Bot) (messages (sendMessage now date now' date' fetch s)) =
           filter (\<lambda>m. sender m = Bot) (messages s)"
    using assms(1,2) by (simp_all add: sendMessage_accepted settle_def submit_def userMessage_def)
  moreover have "isLoading (sendMessage now date now' date' f s) = False" for f
    using assms(1) by (simp add: sendMessage_accepted settle_def Let_def)
  ultimately show ?thesis by blast
qed

theorem failed_request_sets_error_witness:
  "trim (js '' Hello '') \<noteq> [] \<and>
   error (sendMessage 41 42 43 44
     (\<lambda>request. FetchResolves \<lparr>status = 500, statusText = js ''Internal Server Error'',
        json_result = JsonThrows NonError\<rparr>)
     \<lparr>messages = [], input = js '' Hello '', isLoading = False, error = Some (js ''old''),
      requests = [], browser_console = [], focus_calls = 0\<rparr>)
     = Some (js ''API error: Internal Server Error'') \<and>
   isLoading (sendMessage 41 42 43 44
     (\<lambda>request. FetchResolves \<lparr>status = 500, statusText = js ''Internal Server Error'',
        json_result = JsonThrows NonError\<rparr>)
     \<lparr>messages = [], input = js '' Hello '', isLoading = False, error = Some (js ''old''),
      requests = [], browser_console = [], focus_calls = 0\<rparr>) = False"
proof -
  let ?r = "\<lparr>status = 500, statusText = js ''Internal Server Error'',
        json_result = JsonThrows NonError\<rparr>"
  let ?s = "\<lparr>messages = [], input = js '' Hello '', isLoading = False, error = Some (js ''old''),
      requests = [], browser_console = [], focus_calls = 0\<rparr>"
  let ?err = "ErrorObj (js ''API error: '' @ statusText ?r)"
  have h1: "trim (input ?s) \<noteq> []"
    by (simp add: trim_def js_def isWhiteSpace_def)
  have h2: "(\<lambda>request::outbound. FetchResolves ?r) (api_request (input ?s)) = FetchResolves ?r"
    by simp
  have n: "\<not> ok ?r"
    by (simp add: ok_def)
  then have h3: "FetchResolves ?r = FetchRejects NonError \<and> ?err = NonError \<or>
         FetchResolves ?r = FetchResolves ?r \<and> \<not> ok ?r \<and>
           ?err = ErrorObj (js ''API error: '' @ statusText ?r) \<or>
         FetchResolves ?r = FetchResolves ?r \<and> ok ?r \<and> json_result ?r = JsonThrows NonError \<and>
           ?err = NonError"
    by simp
  have m: "js ''API error: '' @ js ''Internal Server Error'' = js ''API error: Internal Server Error''"
    by (simp add: js_def)
  from failed_request_sets_error [OF h1 h2 h3, of 41 42 43 44] h1 m
  show ?thesis by simp
qed

text \<open>
  C10. For a submission (an input that is not empty once trimmed), the state updates that
  precede the request append the user entry, whose text is the input as typed, and empty
  the input field; the request is issued from that state. When the request fails, what
  follows changes neither the transcript nor the input field: the user entry stays and the
  input field is still empty.
\<close>

theorem user_entry_stays_input_cleared:
  assumes "trim (input s) \<noteq> []"
    and "fetch (api_request (input s)) = outcome"
    and "outcome = FetchRejects e \<or>
         outcome = FetchResolves r \<and> \<not> ok r \<or>
         outcome = FetchResolves r \<and> ok r \<and> json_result r = JsonThrows e"
  shows "messages (submit now date s) = messages s @
           [\<lparr>msg_id = toString now, msg_text = Some (JStr (input s)), sender = User,
             timestamp = date\<rparr>] \<and>
         input (submit now date s) = [] \<and>
         requests (submit now date s) = requests s \<and>
         sendMessage now date now' date' fetch s =
           settle now' date' outcome
             ((submit now date s)\<lparr>requests := requests s @ [api_request (input s)]\<rparr>) \<and>
         messages (sendMessage now date now' date' fetch s) = messages (submit now date s) \<and>
         input (sendMessage now date now' date' fetch s) = []"
proof -
  have "\<exists>err. botReply outcome = Inl err"
    using assms(3) by (auto simp: botReply_def)
  then obtain err where "botReply outcome = Inl err" ..
  then show ?thesis
    using assms(1,2) by (simp add: sendMessage_accepted settle_def submit_def userMessage_def)
qed

theorem user_entry_stays_input_cleared_witness:
  "trim (js ''Hello '') \<noteq> [] \<and>
   map msg_text (messages (sendMessage 41 42 43 44
     (\<lambda>request. FetchRejects (ErrorObj (js ''Failed to fetch'')))
     \<lparr>messages = [], input = js ''Hello '', isLoading = False, error = None,
      requests = [], browser_console = [], focus_calls = 0\<rparr>))
     = [Some (JStr (js ''Hello ''))] \<and>
   input (sendMessage 41 42 43 44
     (\<lambda>request. FetchRejects (ErrorObj (js ''Failed to fetch'')))
     \<lparr>messages = [], input = js ''Hello '', isLoading = False, error = None,
      requests = [], browser_console = [], focus_calls = 0\<rparr>) = []"
proof -
  let ?s = "\<lparr>messages = [], input = js ''Hello '', isLoading = False, error = None,
      requests = [], browser_console = [], focus_calls = 0\<rparr>"
  let ?e = "ErrorObj (js ''Failed to fetch'')"
  let ?r = "\<lparr>status = 200, statusText = js ''OK'', json_result = JsonThrows ?e\<rparr>"
  have h1: "trim (input ?s) \<noteq> []"
    by (simp add: trim_def js_def isWhiteSpace_def)
  have h2: "(\<lambda>request::outbound. FetchRejects ?e) (api_request (input ?s)) = FetchRejects ?e"
    by simp
  have h3: "FetchRejects ?e = FetchRejects ?e \<or>
         FetchRejects ?e = FetchResolves ?r \<and> \<not> ok ?r \<or>
         FetchRejects ?e = FetchResolves ?r \<and> ok ?r \<and> json_result ?r = JsonThrows ?e"
    by simp
  note T = user_entry_stays_input_cleared [OF h1 h2 h3, of 41 42 43 44]
  from T have a: "messages (submit 41 42 ?s) = messages ?s @
           [\<lparr>msg_id = toString 41, msg_text = Some (JStr (input ?s)), sender = User,
             timestamp = 42\<rparr>]"
    by (rule conjunct1)
  from T have b: "messages (sendMessage 41 42 43 44 (\<lambda>request. FetchRejects ?e) ?s) =
           messages (submit 41 42 ?s)"
    by (elim conjE)
  from T have c: "input (sendMessage 41 42 43 44 (\<lambda>request. FetchRejects ?e) ?s) = []"
    by (elim conjE)
  from h1 have "trim (js ''Hello '') \<noteq> []"
    by simp
  moreover from a b have "map msg_text (messages (sendMessage 41 42 43 44
      (\<lambda>request. FetchRejects ?e) ?s)) = [Some (JStr (js ''Hello ''))]"
    by simp
  ultimately show ?thesis
    using c by simp
qed

end
